theory Spec2Isabelle
  imports Complex_Main "HOL-Library.Sublist"
begin

section \<open>The adaptive convergence driver of \<open>InfiniteDimensionalSystem\<close>\<close>

text \<open>
  The source is \<^verbatim>\<open>InfiniteDimensionalSystem.adaptive_convergence\<close> in
  \<^verbatim>\<open>infinite_dimensional_framework.py\<close>:
  \<^verbatim>\<open>
    dimension = 10
    previous_result = None
    for iteration in range(max_iterations):
        current_result = computation_func(dimension)
        if previous_result is not None:
            if isinstance(current_result, (int, float, complex)):
                error = abs(current_result - previous_result)
            elif isinstance(current_result, np.ndarray):
                error = np.linalg.norm(current_result - previous_result)
            else:
                error = float('inf')
            self.convergence_history.append(
                {'dimension': dimension, 'error': error, 'result': current_result})
            if error < tolerance:
                return current_result, dimension
        previous_result = current_result
        dimension *= 2
    warnings.warn(f"Failed to converge within {max_iterations} iterations")
    return current_result, dimension
  \<close>
  Python floats are idealised as reals (no rounding, no nan, no infinite operand); Python
  integers are unbounded and are \<open>int\<close>; a numpy array is a one-dimensional array of
  floats, a \<open>real list\<close>.
\<close>

subsection \<open>Values, exceptions and errors\<close>

text \<open>
  What \<^verbatim>\<open>computation_func\<close> may return: \<^verbatim>\<open>None\<close>, the three scalar types the driver
  tests for, an array, and a string for the values of any other type.
\<close>

datatype pyval =
    PyNone
  | PyInt int
  | PyFloat real
  | PyComplex complex
  | NdArray "real list"
  | PyStr string

text \<open>
  The exceptions of a run: the three the driver's own statements can raise, and
  \<open>Raised\<close> for any other exception of the supplied computation.
\<close>

datatype exn = TypeError | ValueError | UnboundLocalError | Raised string

text \<open>
  The value bound to \<^verbatim>\<open>error\<close>: a number, \<^verbatim>\<open>float('inf')\<close>, or an array
  (\<^verbatim>\<open>abs\<close> of a scalar minus an array is an array).
\<close>

datatype err = ErrNum real | ErrInf | ErrArr "real list"

text \<open>
  \<^verbatim>\<open>isinstance(v, (int, float, complex))\<close> holds exactly when \<open>numeric v\<close> is
  \<open>Some\<close>; the value is the operand as Python's arithmetic coerces it.
\<close>

fun numeric :: "pyval \<Rightarrow> complex option" where
  "numeric (PyInt i) = Some (of_int i)"
| "numeric (PyFloat x) = Some (of_real x)"
| "numeric (PyComplex z) = Some z"
| "numeric _ = None"

text \<open>
  \<^verbatim>\<open>a - b\<close> on two one-dimensional arrays: element by element when the lengths agree,
  an array of length one is broadcast over the other, and any other pair of lengths raises
  \<^verbatim>\<open>ValueError\<close> (operands could not be broadcast together).
\<close>

definition elementwise_sub :: "real list \<Rightarrow> real list \<Rightarrow> exn + real list" where
  "elementwise_sub xs ys =
     (if length xs = length ys then Inr (map2 (-) xs ys)
      else if length ys = 1 then Inr (map (\<lambda>x. x - hd ys) xs)
      else if length xs = 1 then Inr (map (\<lambda>y. hd xs - y) ys)
      else Inl ValueError)"

text \<open>\<^verbatim>\<open>np.linalg.norm\<close> of a one-dimensional array, with its default order.\<close>

definition linalg_norm :: "real list \<Rightarrow> real" where
  "linalg_norm ds = sqrt (\<Sum>d\<leftarrow>ds. d\<^sup>2)"

text \<open>
  Lines 75 to 80: the value bound to \<^verbatim>\<open>error\<close>, by the type of the current result.
  A string or \<^verbatim>\<open>None\<close> as the right operand of \<^verbatim>\<open>-\<close> raises \<^verbatim>\<open>TypeError\<close>.
\<close>

fun error_of :: "pyval \<Rightarrow> pyval \<Rightarrow> exn + err" where
  "error_of current_result previous_result =
     (case numeric current_result of
        Some c \<Rightarrow>
          (case previous_result of
             NdArray ys \<Rightarrow> Inr (ErrArr (map (\<lambda>y. cmod (c - of_real y)) ys))
           | _ \<Rightarrow>
              (case numeric previous_result of
                 Some p \<Rightarrow> Inr (ErrNum (cmod (c - p)))
               | None \<Rightarrow> Inl TypeError))
      | None \<Rightarrow>
          (case current_result of
             NdArray xs \<Rightarrow>
               (case previous_result of
                  NdArray ys \<Rightarrow>
                    (case elementwise_sub xs ys of
                       Inl x \<Rightarrow> Inl x
                     | Inr ds \<Rightarrow> Inr (ErrNum (linalg_norm ds)))
                | _ \<Rightarrow>
                    (case numeric previous_result of
                       Some p \<Rightarrow> Inr (ErrNum (sqrt (\<Sum>x\<leftarrow>xs. (cmod (of_real x - p))\<^sup>2)))
                     | None \<Rightarrow> Inl TypeError))
           | _ \<Rightarrow> Inr ErrInf))"

text \<open>
  Line 88, the test \<^verbatim>\<open>if error < tolerance\<close>. For an array \<^verbatim>\<open>error\<close> the comparison
  is an array of booleans, whose truth value is its element when it has one element and a
  \<^verbatim>\<open>ValueError\<close> when it has several (or none, in numpy 2.2 and later).
\<close>

fun below :: "err \<Rightarrow> real \<Rightarrow> exn + bool" where
  "below (ErrNum d) tolerance = Inr (d < tolerance)"
| "below ErrInf tolerance = Inr False"
| "below (ErrArr ds) tolerance =
     (case ds of [d] \<Rightarrow> Inr (d < tolerance) | _ \<Rightarrow> Inl ValueError)"

subsection \<open>The instance and its environment\<close>

text \<open>One dictionary appended to \<^verbatim>\<open>convergence_history\<close>.\<close>

record entry =
  dimension :: int
  error :: err
  result :: pyval

text \<open>The \<^verbatim>\<open>UserWarning\<close> of line 94; its message carries \<^verbatim>\<open>max_iterations\<close>.\<close>

datatype warning = FailedToConverge int

text \<open>
  The two attributes of the instance, and the two effects a call has outside of it: the
  warnings it emits, and the sizes at which it calls the supplied computation, in order.
\<close>

record system =
  dimension_cutoff :: int
  convergence_history :: "entry list"
  warnings :: "warning list"
  calls :: "int list"

definition init :: "int \<Rightarrow> system" where
  "init cutoff =
     \<lparr>dimension_cutoff = cutoff, convergence_history = [], warnings = [], calls = []\<rparr>"

subsection \<open>The loop\<close>

text \<open>
  Lines 94 and 95, after the loop. \<^verbatim>\<open>current_result\<close> is unbound when the loop body
  never ran, and reading it raises \<^verbatim>\<open>UnboundLocalError\<close> after the warning.
\<close>

definition finish ::
  "int \<Rightarrow> int \<Rightarrow> pyval option \<Rightarrow> system \<Rightarrow> (exn + pyval \<times> int) \<times> system" where
  "finish max_iterations d current s =
     (let s' = s\<lparr>warnings := warnings s @ [FailedToConverge max_iterations]\<rparr>
      in case current of
           None \<Rightarrow> (Inl UnboundLocalError, s')
         | Some c \<Rightarrow> (Inr (c, d), s'))"

text \<open>
  Lines 71 to 92. The fourth argument counts the iterations \<^verbatim>\<open>range\<close> still has to
  give; \<open>d\<close> is \<^verbatim>\<open>dimension\<close>, \<open>previous\<close> is \<^verbatim>\<open>previous_result\<close> (Python's
  \<^verbatim>\<open>None\<close> is \<open>PyNone\<close>, whether it is the initial value or a result of the
  computation), \<open>current\<close> is \<^verbatim>\<open>current_result\<close>, \<open>None\<close> while unbound.
\<close>

fun loop ::
  "(int \<Rightarrow> exn + pyval) \<Rightarrow> real \<Rightarrow> int \<Rightarrow> nat \<Rightarrow> int \<Rightarrow> pyval \<Rightarrow> pyval option \<Rightarrow> system
     \<Rightarrow> (exn + pyval \<times> int) \<times> system" where
  "loop computation_func tolerance max_iterations 0 d previous current s =
     finish max_iterations d current s"
| "loop computation_func tolerance max_iterations (Suc n) d previous current s =
     (let s1 = s\<lparr>calls := calls s @ [d]\<rparr> in
      case computation_func d of
        Inl x \<Rightarrow> (Inl x, s1)
      | Inr current_result \<Rightarrow>
          if previous \<noteq> PyNone then
            (case error_of current_result previous of
               Inl x \<Rightarrow> (Inl x, s1)
             | Inr e \<Rightarrow>
                 let s2 = s1\<lparr>convergence_history := convergence_history s1 @
                            [\<lparr>dimension = d, error = e, result = current_result\<rparr>]\<rparr>
                 in (case below e tolerance of
                       Inl x \<Rightarrow> (Inl x, s2)
                     | Inr True \<Rightarrow> (Inr (current_result, d), s2)
                     | Inr False \<Rightarrow>
                         loop computation_func tolerance max_iterations n (2 * d)
                           current_result (Some current_result) s2))
          else
            loop computation_func tolerance max_iterations n (2 * d)
              current_result (Some current_result) s1)"

definition adaptive_convergence ::
  "(int \<Rightarrow> exn + pyval) \<Rightarrow> real \<Rightarrow> int \<Rightarrow> system \<Rightarrow> (exn + pyval \<times> int) \<times> system" where
  "adaptive_convergence computation_func tolerance max_iterations s =
     loop computation_func tolerance max_iterations (nat max_iterations) 10 PyNone None s"

subsection \<open>The run, call by call\<close>

text \<open>
  The vocabulary of the statements below. The \<open>j\<close>-th call of the supplied computation
  (counting from \<open>0\<close>) is made at size \<open>size_at j\<close>; \<open>r j\<close> names what that call returns
  and \<open>e j\<close> the value bound to \<^verbatim>\<open>error\<close> in that iteration. \<open>previous_at r j\<close> and
  \<open>current_at r j\<close> are \<^verbatim>\<open>previous_result\<close> and \<^verbatim>\<open>current_result\<close> on entry to
  iteration \<open>j\<close>, \<open>after r e i n s\<close> is the state after iterations \<open>i\<close> to \<open>i + n - 1\<close>
  when none of them returned, and \<open>continues\<close> says that an iteration neither raises nor
  returns.
\<close>

definition size_at :: "nat \<Rightarrow> int" where
  "size_at k = 10 * 2 ^ k"

definition previous_at :: "(nat \<Rightarrow> pyval) \<Rightarrow> nat \<Rightarrow> pyval" where
  "previous_at r j = (case j of 0 \<Rightarrow> PyNone | Suc i \<Rightarrow> r i)"

definition current_at :: "(nat \<Rightarrow> pyval) \<Rightarrow> nat \<Rightarrow> pyval option" where
  "current_at r j = (case j of 0 \<Rightarrow> None | Suc i \<Rightarrow> Some (r i))"

definition entries :: "(nat \<Rightarrow> pyval) \<Rightarrow> (nat \<Rightarrow> err) \<Rightarrow> nat \<Rightarrow> nat \<Rightarrow> entry list" where
  "entries r e i n =
     map (\<lambda>j. \<lparr>dimension = size_at j, error = e j, result = r j\<rparr>)
       (filter (\<lambda>j. previous_at r j \<noteq> PyNone) [i..<i + n])"

definition after :: "(nat \<Rightarrow> pyval) \<Rightarrow> (nat \<Rightarrow> err) \<Rightarrow> nat \<Rightarrow> nat \<Rightarrow> system \<Rightarrow> system" where
  "after r e i n s =
     s\<lparr>calls := calls s @ map size_at [i..<i + n],
       convergence_history := convergence_history s @ entries r e i n\<rparr>"

definition continues ::
  "(int \<Rightarrow> exn + pyval) \<Rightarrow> real \<Rightarrow> (nat \<Rightarrow> pyval) \<Rightarrow> (nat \<Rightarrow> err) \<Rightarrow> nat \<Rightarrow> bool" where
  "continues f tol r e j \<longleftrightarrow>
     f (size_at j) = Inr (r j) \<and>
     (previous_at r j \<noteq> PyNone \<longrightarrow>
        error_of (r j) (previous_at r j) = Inr (e j) \<and> below (e j) tol = Inr False)"

section \<open>Properties\<close>

subsection \<open>The loop, iteration by iteration\<close>

declare error_of.simps [simp del]

lemma size_at_Suc: "size_at (Suc i) = 2 * size_at i"
  by (simp add: size_at_def)

lemma after_0: "after r e i 0 s = s"
  by (simp add: after_def entries_def)

lemma upt_shift: "[i..<i + Suc n] = i # [Suc i..<Suc i + n]"
  by (simp add: upt_rec)

lemma after_after: "after r e (Suc i) n (after r e i 1 s) = after r e i (Suc n) s"
  unfolding after_def entries_def upt_shift by simp

lemma loop_step_continue:
  assumes "continues f tol r e i"
  shows "loop f tol m (Suc n) (size_at i) (previous_at r i) cur s =
         loop f tol m n (size_at (Suc i)) (previous_at r (Suc i)) (current_at r (Suc i))
           (after r e i 1 s)"
  using assms
  by (auto simp: continues_def after_def entries_def size_at_Suc previous_at_def current_at_def Let_def)

lemma loop_prefix:
  assumes "\<forall>j. i \<le> j \<and> j < i + n \<longrightarrow> continues f tol r e j"
  shows "loop f tol m (n + q) (size_at i) (previous_at r i) cur s =
         loop f tol m q (size_at (i + n)) (previous_at r (i + n))
           (if n = 0 then cur else current_at r (i + n)) (after r e i n s)"
  using assms
proof (induction n arbitrary: i cur s)
  case 0
  then show ?case by (simp add: after_0)
next
  case (Suc n)
  have c: "continues f tol r e i" using Suc.prems by simp
  have rest: "\<forall>j. Suc i \<le> j \<and> j < Suc i + n \<longrightarrow> continues f tol r e j"
    using Suc.prems by simp
  have "loop f tol m (Suc n + q) (size_at i) (previous_at r i) cur s =
        loop f tol m (n + q) (size_at (Suc i)) (previous_at r (Suc i)) (current_at r (Suc i))
          (after r e i 1 s)"
    using loop_step_continue [OF c] by simp
  also have "\<dots> = loop f tol m q (size_at (Suc i + n)) (previous_at r (Suc i + n))
          (if n = 0 then current_at r (Suc i) else current_at r (Suc i + n))
          (after r e (Suc i) n (after r e i 1 s))"
    using Suc.IH [OF rest] by simp
  also have "after r e (Suc i) n (after r e i 1 s) = after r e i (Suc n) s"
    by (rule after_after)
  finally show ?case by (auto simp: )
qed


lemma continues_bridge:
  assumes "\<forall>j<n. f (10 * 2 ^ j) = Inr (r j)"
    and "\<forall>j. 0 < j \<and> j < n \<and> r (j - 1) \<noteq> PyNone \<longrightarrow>
           error_of (r j) (r (j - 1)) = Inr (e j) \<and> below (e j) tol = Inr False"
  shows "\<forall>j. 0 \<le> j \<and> j < 0 + n \<longrightarrow> continues f tol r e j"
proof (intro allI impI)
  fix j assume "0 \<le> j \<and> j < 0 + n"
  then have j: "j < n" by simp
  show "continues f tol r e j"
  proof (cases j)
    case 0
    then show ?thesis using assms(1) [rule_format, of 0] j
      by (simp add: continues_def size_at_def previous_at_def)
  next
    case (Suc i)
    have "f (10 * 2 ^ j) = Inr (r j)" using assms(1) j by blast
    moreover have "r (j - 1) \<noteq> PyNone \<longrightarrow>
           error_of (r j) (r (j - 1)) = Inr (e j) \<and> below (e j) tol = Inr False"
      using assms(2) [rule_format, of j] j Suc by simp
    ultimately show ?thesis using Suc
      by (simp add: continues_def size_at_def previous_at_def)
  qed
qed

lemma run_prefix:
  assumes "\<forall>j. 0 \<le> j \<and> j < 0 + k \<longrightarrow> continues f tol r e j" and "k \<le> m"
  shows "adaptive_convergence f tol (int m) s =
         loop f tol (int m) (m - k) (size_at k) (previous_at r k) (current_at r k)
           (after r e 0 k s)"
proof -
  have "loop f tol (int m) (k + (m - k)) (size_at 0) (previous_at r 0) None s =
        loop f tol (int m) (m - k) (size_at (0 + k)) (previous_at r (0 + k))
          (if k = 0 then None else current_at r (0 + k)) (after r e 0 k s)"
    by (rule loop_prefix [OF assms(1)])
  moreover have "(if k = 0 then None else current_at r (0 + k)) = current_at r k"
    by (simp add: current_at_def)
  ultimately show ?thesis
    using assms(2) by (simp add: adaptive_convergence_def size_at_def previous_at_def)
qed

lemma run_exhausted:
  assumes "\<forall>j. 0 \<le> j \<and> j < 0 + m \<longrightarrow> continues f tol r e j"
  shows "adaptive_convergence f tol (int m) s =
         finish (int m) (size_at m) (current_at r m) (after r e 0 m s)"
  using run_prefix [OF assms order_refl] by simp

lemma entries_from_0:
  "entries r e 0 n =
     map (\<lambda>j. \<lparr>dimension = 10 * 2 ^ j, error = e j, result = r j\<rparr>)
       (filter (\<lambda>j. r (j - 1) \<noteq> PyNone) [1..<n])"
proof (cases n)
  case 0
  then show ?thesis by (simp add: entries_def)
next
  case (Suc k)
  have "filter (\<lambda>j. previous_at r j \<noteq> PyNone) [0..<Suc k] =
        filter (\<lambda>j. r (j - 1) \<noteq> PyNone) [1..<Suc k]"
  proof -
    have "[0..<Suc k] = 0 # [1..<Suc k]" by (simp add: upt_conv_Cons)
    moreover have "filter (\<lambda>j. previous_at r j \<noteq> PyNone) [1..<Suc k] =
        filter (\<lambda>j. r (j - 1) \<noteq> PyNone) [1..<Suc k]"
      by (rule filter_cong) (auto simp: previous_at_def split: nat.splits)
    ultimately show ?thesis by (simp add: previous_at_def)
  qed
  then show ?thesis using Suc by (simp add: entries_def size_at_def)
qed

lemma map_size_at: "map size_at xs = map (\<lambda>j. 10 * 2 ^ j) xs"
  by (simp add: size_at_def)

lemma after_from_0:
  "after r e 0 n s =
     s\<lparr>calls := calls s @ map (\<lambda>j. 10 * 2 ^ j) [0..<n],
       convergence_history := convergence_history s @
         map (\<lambda>j. \<lparr>dimension = 10 * 2 ^ j, error = e j, result = r j\<rparr>)
           (filter (\<lambda>j. r (j - 1) \<noteq> PyNone) [1..<n])\<rparr>"
  by (simp add: after_def entries_from_0 map_size_at)

lemma run_exhausted_explicit:
  assumes "0 < m"
    and "\<forall>j<m. f (10 * 2 ^ j) = Inr (r j)"
    and "\<forall>j. 0 < j \<and> j < m \<and> r (j - 1) \<noteq> PyNone \<longrightarrow>
           error_of (r j) (r (j - 1)) = Inr (e j) \<and> below (e j) tol = Inr False"
  shows "adaptive_convergence f tol (int m) s =
           (Inr (r (m - 1), 10 * 2 ^ m),
            s\<lparr>calls := calls s @ map (\<lambda>j. 10 * 2 ^ j) [0..<m],
              convergence_history := convergence_history s @
                map (\<lambda>j. \<lparr>dimension = 10 * 2 ^ j, error = e j, result = r j\<rparr>)
                  (filter (\<lambda>j. r (j - 1) \<noteq> PyNone) [1..<m]),
              warnings := warnings s @ [FailedToConverge (int m)]\<rparr>)"
proof -
  have c: "\<forall>j. 0 \<le> j \<and> j < 0 + m \<longrightarrow> continues f tol r e j"
    by (rule continues_bridge [OF assms(2,3)])
  have cur: "current_at r m = Some (r (m - 1))"
    using assms(1) by (cases m) (simp_all add: current_at_def)
  show ?thesis
    unfolding run_exhausted [OF c] after_from_0 cur
    by (simp add: finish_def size_at_def)
qed

lemma run_reaches:
  assumes "k < m"
    and "\<forall>j<k. f (10 * 2 ^ j) = Inr (r j)"
    and "\<forall>j. 0 < j \<and> j < k \<and> r (j - 1) \<noteq> PyNone \<longrightarrow>
           error_of (r j) (r (j - 1)) = Inr (e j) \<and> below (e j) tol = Inr False"
  shows "adaptive_convergence f tol (int m) s =
           loop f tol (int m) (Suc (m - k - 1)) (10 * 2 ^ k) (previous_at r k) (current_at r k)
             (s\<lparr>calls := calls s @ map (\<lambda>j. 10 * 2 ^ j) [0..<k],
                convergence_history := convergence_history s @
                  map (\<lambda>j. \<lparr>dimension = 10 * 2 ^ j, error = e j, result = r j\<rparr>)
                    (filter (\<lambda>j. r (j - 1) \<noteq> PyNone) [1..<k])\<rparr>)"
proof -
  have c: "\<forall>j. 0 \<le> j \<and> j < 0 + k \<longrightarrow> continues f tol r e j"
    by (rule continues_bridge [OF assms(2,3)])
  have le: "k \<le> m" using assms(1) by simp
  have "m - k = Suc (m - k - 1)" using assms(1) by simp
  then show ?thesis
    using run_prefix [OF c le, of s] by (simp add: after_from_0 size_at_def)
qed

lemma run_raise_explicit:
  assumes "k < m"
    and "\<forall>j<k. f (10 * 2 ^ j) = Inr (r j)"
    and "\<forall>j. 0 < j \<and> j < k \<and> r (j - 1) \<noteq> PyNone \<longrightarrow>
           error_of (r j) (r (j - 1)) = Inr (e j) \<and> below (e j) tol = Inr False"
    and "f (10 * 2 ^ k) = Inl x"
  shows "adaptive_convergence f tol (int m) s =
           (Inl x,
            s\<lparr>calls := calls s @ map (\<lambda>j. 10 * 2 ^ j) [0..<Suc k],
              convergence_history := convergence_history s @
                map (\<lambda>j. \<lparr>dimension = 10 * 2 ^ j, error = e j, result = r j\<rparr>)
                  (filter (\<lambda>j. r (j - 1) \<noteq> PyNone) [1..<k])\<rparr>)"
  unfolding run_reaches [OF assms(1,2,3)] using assms(4) by simp

lemma run_success_explicit:
  assumes "0 < k" and "k < m"
    and "\<forall>j<k. f (10 * 2 ^ j) = Inr (r j)"
    and "\<forall>j. 0 < j \<and> j < k \<and> r (j - 1) \<noteq> PyNone \<longrightarrow>
           error_of (r j) (r (j - 1)) = Inr (e j) \<and> below (e j) tol = Inr False"
    and "f (10 * 2 ^ k) = Inr c"
    and "r (k - 1) \<noteq> PyNone"
    and "error_of c (r (k - 1)) = Inr ev"
    and "below ev tol = Inr True"
  shows "adaptive_convergence f tol (int m) s =
           (Inr (c, 10 * 2 ^ k),
            s\<lparr>calls := calls s @ map (\<lambda>j. 10 * 2 ^ j) [0..<Suc k],
              convergence_history := convergence_history s @
                map (\<lambda>j. \<lparr>dimension = 10 * 2 ^ j, error = e j, result = r j\<rparr>)
                  (filter (\<lambda>j. r (j - 1) \<noteq> PyNone) [1..<k]) @
                [\<lparr>dimension = 10 * 2 ^ k, error = ev, result = c\<rparr>]\<rparr>)"
proof -
  have p: "previous_at r k = r (k - 1)"
    using assms(1) by (cases k) (simp_all add: previous_at_def)
  show ?thesis
    unfolding run_reaches [OF assms(2,3,4)] p using assms(5-8) by simp
qed

subsection \<open>The distance of two results\<close>

lemma error_of_numeric:
  "numeric c = Some z \<Longrightarrow> numeric p = Some w \<Longrightarrow> error_of c p = Inr (ErrNum (cmod (z - w)))"
  by (cases p) (simp_all add: error_of.simps)

lemma error_of_int: "error_of (PyInt a) (PyInt b) = Inr (ErrNum (of_int \<bar>a - b\<bar>))"
proof -
  have "cmod (of_int a - of_int b) = of_int \<bar>a - b\<bar>"
    by (metis norm_of_int of_int_abs of_int_diff)
  then show ?thesis by (simp add: error_of.simps)
qed

lemma error_of_float: "error_of (PyFloat x) (PyFloat y) = Inr (ErrNum \<bar>x - y\<bar>)"
proof -
  have "cmod (of_real x - of_real y) = \<bar>x - y\<bar>"
    by (metis norm_of_real of_real_diff)
  then show ?thesis by (simp add: error_of.simps)
qed

lemma error_of_other:
  "numeric c = None \<Longrightarrow> (\<forall>xs. c \<noteq> NdArray xs) \<Longrightarrow> error_of c p = Inr ErrInf"
  by (cases c) (simp_all add: error_of.simps)

lemma sum_list_map2_nth:
  "length xs = length ys \<Longrightarrow>
   (\<Sum>d\<leftarrow>map2 (-) xs ys. d\<^sup>2) = (\<Sum>i<length xs. (xs ! i - ys ! i)\<^sup>2)" for xs ys :: "real list"
proof -
  assume l: "length xs = length ys"
  have "(\<Sum>d\<leftarrow>map2 (-) xs ys. d\<^sup>2) = (\<Sum>i<length (map2 (-) xs ys). ((map2 (-) xs ys) ! i)\<^sup>2)"
    by (simp add: sum_list_sum_nth atLeast0LessThan)
  also have "\<dots> = (\<Sum>i<length xs. (xs ! i - ys ! i)\<^sup>2)"
    using l by simp
  finally show ?thesis .
qed

lemma error_of_arrays:
  "length xs = length ys \<Longrightarrow>
   error_of (NdArray xs) (NdArray ys) =
     Inr (ErrNum (sqrt (\<Sum>i<length xs. (xs ! i - ys ! i)\<^sup>2)))"
  using sum_list_map2_nth [of xs ys]
  by (simp add: error_of.simps elementwise_sub_def linalg_norm_def)

lemma error_of_constant_arrays:
  "error_of (NdArray (replicate m a)) (NdArray (replicate m b)) =
     Inr (ErrNum (sqrt (real m) * \<bar>a - b\<bar>))"
proof -
  have "(\<Sum>i<m. (replicate m a ! i - replicate m b ! i)\<^sup>2) = real m * (a - b)\<^sup>2"
    by simp
  then have "sqrt (\<Sum>i<length (replicate m a). (replicate m a ! i - replicate m b ! i)\<^sup>2)
           = sqrt (real m) * \<bar>a - b\<bar>"
    by (simp add: real_sqrt_mult)
  then show ?thesis
    using error_of_arrays [of "replicate m a" "replicate m b"] by simp
qed

subsection \<open>The log only grows\<close>

lemma loop_history_prefix:
  "prefix (convergence_history s) (convergence_history (snd (loop f tol m n d p c s)))"
proof (induction n arbitrary: d p c s)
  case 0
  then show ?case by (simp add: finish_def Let_def split: option.splits)
next
  case (Suc n)
  show ?case
  proof (cases "f d")
    case (Inl x)
    then show ?thesis by simp
  next
    case (Inr cur)
    show ?thesis
    proof (cases "p = PyNone")
      case True
      then show ?thesis using Inr Suc.IH [of "s\<lparr>calls := calls s @ [d]\<rparr>"] by simp
    next
      case False
      show ?thesis
      proof (cases "error_of cur p")
        case (Inl x)
        then show ?thesis using Inr False by simp
      next
        case e: (Inr e)
        let ?s2 = "s\<lparr>calls := calls s @ [d],
                     convergence_history := convergence_history s @
                       [\<lparr>dimension = d, error = e, result = cur\<rparr>]\<rparr>"
        have grow: "prefix (convergence_history s) (convergence_history ?s2)" by simp
        show ?thesis
        proof (cases "below e tol")
          case (Inl x)
          then show ?thesis using Inr False e by simp
        next
          case b: (Inr b)
          show ?thesis
          proof (cases b)
            case True
            then show ?thesis using Inr False e b by simp
          next
            case nb: False
            have "prefix (convergence_history ?s2)
                    (convergence_history (snd (loop f tol m n (2 * d) cur (Some cur) ?s2)))"
              by (rule Suc.IH)
            then have "prefix (convergence_history s)
                    (convergence_history (snd (loop f tol m n (2 * d) cur (Some cur) ?s2)))"
              using grow prefix_order.trans by blast
            then show ?thesis using Inr False e b nb by simp
          qed
        qed
      qed
    qed
  qed
qed

text \<open>
  C8: the convergence log is append-only. Whatever the supplied computation does, returning
  or raising, the log after a call of \<open>adaptive_convergence\<close> is the log before it followed
  by the records of this call: nothing is changed, removed, reordered or cleared. Hence the
  log after a second call on the same instance extends the log after the first, and its
  length never decreases. A new instance starts with the empty log.
\<close>

theorem log_append_only:
  "prefix (convergence_history s)
     (convergence_history (snd (adaptive_convergence f tol m s))) \<and>
   prefix (convergence_history (snd (adaptive_convergence f tol m s)))
     (convergence_history
        (snd (adaptive_convergence g tol' m' (snd (adaptive_convergence f tol m s))))) \<and>
   convergence_history (init cutoff) = []"
  by (simp add: adaptive_convergence_def loop_history_prefix init_def)

subsection \<open>A single iteration\<close>

text \<open>
  C10: with \<^verbatim>\<open>max_iterations = 1\<close> the supplied computation is called once, at size 10;
  when it returns \<open>c\<close> the call appends nothing to the log (no second result to compare
  with), emits the warning and returns \<open>(c, 20)\<close>, whatever the tolerance: the success
  path is out of reach.
\<close>

theorem single_iteration:
  assumes "f 10 = Inr c"
  shows "adaptive_convergence f tol 1 s =
           (Inr (c, 20),
            s\<lparr>calls := calls s @ [10], warnings := warnings s @ [FailedToConverge 1]\<rparr>)"
  using assms by (simp add: adaptive_convergence_def finish_def)

theorem single_iteration_witness:
  "adaptive_convergence (\<lambda>n. Inr (PyInt n)) (1 / 10 ^ 12) 1 (init 1000) =
     (Inr (PyInt 10, 20),
      \<lparr>dimension_cutoff = 1000, convergence_history = [], warnings = [FailedToConverge 1],
       calls = [10]\<rparr>)"
  using single_iteration [of "\<lambda>n. Inr (PyInt n)" "PyInt 10" "1 / 10 ^ 12" "init 1000"]
  by (simp add: init_def)

subsection \<open>Running out of iterations\<close>

text \<open>
  C1, as the code has it: let \<^verbatim>\<open>max_iterations\<close> be \<open>m \<ge> 1\<close>, let the calls at the sizes
  \<open>10, 20, 40, \<dots>\<close> return \<open>r 0, r 1, \<dots>\<close>, and let no comparison raise or fall below
  the tolerance. Then the call emits exactly one warning and returns a pair whose first
  component is the result computed last, \<open>r (m - 1)\<close>, the result at size
  \<open>10 * 2 ^ (m - 1)\<close>. For \<^verbatim>\<open>compute(n) = n\<close> and three iterations that result is 40.
\<close>

theorem exhausted_returns_last_result:
  assumes "0 < m"
    and "\<forall>j<m. f (10 * 2 ^ j) = Inr (r j)"
    and "\<forall>j. 0 < j \<and> j < m \<and> r (j - 1) \<noteq> PyNone \<longrightarrow>
           error_of (r j) (r (j - 1)) = Inr (e j) \<and> below (e j) tol = Inr False"
  shows "(\<exists>d. fst (adaptive_convergence f tol (int m) s) = Inr (r (m - 1), d)) \<and>
         warnings (snd (adaptive_convergence f tol (int m) s)) =
           warnings s @ [FailedToConverge (int m)]"
  unfolding run_exhausted_explicit [OF assms] by simp

theorem exhausted_returns_last_result_witness:
  "(\<exists>d. fst (adaptive_convergence (\<lambda>n. Inr (PyInt n)) (1 / 10 ^ 12) 3 (init 1000)) =
          Inr (PyInt 40, d)) \<and>
   warnings (snd (adaptive_convergence (\<lambda>n. Inr (PyInt n)) (1 / 10 ^ 12) 3 (init 1000))) =
     [FailedToConverge 3]"
proof -
  let ?r = "\<lambda>j::nat. PyInt (10 * 2 ^ j)"
  let ?e = "\<lambda>j::nat. ErrNum (of_int \<bar>10 * 2 ^ j - 10 * 2 ^ (j - 1)\<bar>)"
  have three: "j = 1 \<or> j = 2" if "0 < j \<and> j < 3" for j :: nat
    using that by auto
  have a: "(0::nat) < 3" by simp
  have b: "\<forall>j<3::nat. (\<lambda>n. Inr (PyInt n)) (10 * 2 ^ j) = (Inr (?r j) :: exn + pyval)" by simp
  have c: "\<forall>j. 0 < j \<and> j < 3 \<and> ?r (j - 1) \<noteq> PyNone \<longrightarrow>
           error_of (?r j) (?r (j - 1)) = Inr (?e j) \<and> below (?e j) (1 / 10 ^ 12) = Inr False"
  proof (intro allI impI)
    fix j :: nat assume "0 < j \<and> j < 3 \<and> ?r (j - 1) \<noteq> PyNone"
    then have "j = 1 \<or> j = 2" using three by blast
    then show "error_of (?r j) (?r (j - 1)) = Inr (?e j) \<and>
               below (?e j) (1 / 10 ^ 12) = Inr False"
      by (auto simp: error_of_int)
  qed
  show ?thesis
    using exhausted_returns_last_result [OF a b c, of "init 1000"] by (simp add: init_def)
qed

text \<open>
  The run of the statement of C1: three iterations call the computation at 10, 20 and 40,
  so the result returned is 40 and not 80, and the size returned, 80, was never used.
\<close>

theorem exhausted_identity_counterexample:
  "fst (adaptive_convergence (\<lambda>n. Inr (PyInt n)) (1 / 10 ^ 12) 3 (init 1000)) =
     Inr (PyInt 40, 80) \<and>
   fst (adaptive_convergence (\<lambda>n. Inr (PyInt n)) (1 / 10 ^ 12) 3 (init 1000)) \<noteq>
     Inr (PyInt 80, 80) \<and>
   calls (snd (adaptive_convergence (\<lambda>n. Inr (PyInt n)) (1 / 10 ^ 12) 3 (init 1000))) =
     [10, 20, 40]"
  by (simp add: adaptive_convergence_def finish_def init_def error_of_int eval_nat_numeral)

subsection \<open>Success\<close>

text \<open>
  C2: let iteration \<open>k \<ge> 1\<close> (the call at size \<open>10 * 2 ^ k\<close>) be the first at which a
  previous result exists and the distance \<open>d\<close> is strictly below the tolerance, every
  earlier comparison having given a distance not below it (equal to it included). Then the
  call returns the result of iteration \<open>k\<close> with the size \<open>10 * 2 ^ k\<close> it was computed at,
  the computation is called at the sizes up to that one and at no other, and no warning is
  emitted.
\<close>

theorem success_returns_immediately:
  assumes "0 < k" and "k < m"
    and "\<forall>j\<le>k. f (10 * 2 ^ j) = Inr (r j)"
    and "\<forall>j. 0 < j \<and> j < k \<and> r (j - 1) \<noteq> PyNone \<longrightarrow>
           error_of (r j) (r (j - 1)) = Inr (e j) \<and> below (e j) tol = Inr False"
    and "r (k - 1) \<noteq> PyNone"
    and "error_of (r k) (r (k - 1)) = Inr (ErrNum d)"
    and "d < tol"
  shows "fst (adaptive_convergence f tol (int m) s) = Inr (r k, 10 * 2 ^ k) \<and>
         calls (snd (adaptive_convergence f tol (int m) s)) =
           calls s @ map (\<lambda>j. 10 * 2 ^ j) [0..<Suc k] \<and>
         warnings (snd (adaptive_convergence f tol (int m) s)) = warnings s"
proof -
  have before: "\<forall>j<k. f (10 * 2 ^ j) = Inr (r j)" using assms(3) by simp
  have at: "f (10 * 2 ^ k) = Inr (r k)" using assms(3) by simp
  have pass: "below (ErrNum d) tol = Inr True" using assms(7) by simp
  show ?thesis
    unfolding run_success_explicit [OF assms(1,2) before assms(4) at assms(5,6) pass]
    by simp
qed

text \<open>
  In the witness the distance at size 20 equals the tolerance, which does not end the run;
  the distance at size 40 is below it.
\<close>

theorem success_returns_immediately_witness:
  "error_of (PyFloat 1) (PyFloat 0) = Inr (ErrNum 1) \<and>
   fst (adaptive_convergence
          (\<lambda>n. Inr (PyFloat (if n = 10 then 0 else if n = 20 then 1 else 3 / 2))) 1 10
          (init 1000)) = Inr (PyFloat (3 / 2), 40) \<and>
   calls (snd (adaptive_convergence
          (\<lambda>n. Inr (PyFloat (if n = 10 then 0 else if n = 20 then 1 else 3 / 2))) 1 10
          (init 1000))) = [10, 20, 40]"
proof -
  let ?f = "\<lambda>n::int. (Inr (PyFloat (if n = 10 then 0 else if n = 20 then 1 else 3 / 2))
              :: exn + pyval)"
  let ?r = "\<lambda>j::nat. PyFloat (if j = 0 then 0 else if j = 1 then 1 else 3 / 2)"
  let ?e = "\<lambda>j::nat. ErrNum 1"
  have a: "(0::nat) < 2" and b: "(2::nat) < 10" by simp_all
  have c: "\<forall>j\<le>2::nat. ?f (10 * 2 ^ j) = Inr (?r j)"
  proof (intro allI impI)
    fix j :: nat assume "j \<le> 2"
    then have "j = 0 \<or> j = 1 \<or> j = 2" by auto
    then show "?f (10 * 2 ^ j) = Inr (?r j)" by auto
  qed
  have d: "\<forall>j. 0 < j \<and> j < 2 \<and> ?r (j - 1) \<noteq> PyNone \<longrightarrow>
           error_of (?r j) (?r (j - 1)) = Inr (?e j) \<and> below (?e j) 1 = Inr False"
  proof (intro allI impI)
    fix j :: nat assume "0 < j \<and> j < 2 \<and> ?r (j - 1) \<noteq> PyNone"
    then have "j = 1" by auto
    then show "error_of (?r j) (?r (j - 1)) = Inr (?e j) \<and> below (?e j) 1 = Inr False"
      by (simp add: error_of_float)
  qed
  have e: "?r (2 - 1) \<noteq> PyNone" by simp
  have f: "error_of (?r 2) (?r (2 - 1)) = Inr (ErrNum (1 / 2))" by (simp add: error_of_float)
  have g: "(1 / 2 :: real) < 1" by simp
  show ?thesis
    using success_returns_immediately [OF a b c d e f g, of "init 1000"]
    by (simp add: init_def error_of_float upt_rec)
qed

subsection \<open>Exceptions of the supplied computation\<close>

text \<open>
  C9: let the call at size \<open>10 * 2 ^ k\<close> be reached (no earlier iteration raised or
  returned) and raise \<open>x\<close>. Then \<open>adaptive_convergence\<close> raises that same \<open>x\<close>: the
  failing call is the last call made and is made once, no further record is logged and no
  warning is emitted, and there is no return value.
\<close>

theorem exception_propagates:
  assumes "k < m"
    and "\<forall>j<k. f (10 * 2 ^ j) = Inr (r j)"
    and "\<forall>j. 0 < j \<and> j < k \<and> r (j - 1) \<noteq> PyNone \<longrightarrow>
           error_of (r j) (r (j - 1)) = Inr (e j) \<and> below (e j) tol = Inr False"
    and "f (10 * 2 ^ k) = Inl x"
  shows "adaptive_convergence f tol (int m) s =
           (Inl x,
            s\<lparr>calls := calls s @ map (\<lambda>j. 10 * 2 ^ j) [0..<Suc k],
              convergence_history := convergence_history s @
                map (\<lambda>j. \<lparr>dimension = 10 * 2 ^ j, error = e j, result = r j\<rparr>)
                  (filter (\<lambda>j. r (j - 1) \<noteq> PyNone) [1..<k])\<rparr>)"
  by (rule run_raise_explicit [OF assms])

theorem exception_propagates_witness:
  "adaptive_convergence
     (\<lambda>n. if n = 40 then Inl (Raised ''singular matrix'') else Inr (PyInt n)) (1 / 10 ^ 12) 10
     (init 1000) =
   (Inl (Raised ''singular matrix''),
    \<lparr>dimension_cutoff = 1000,
     convergence_history = [\<lparr>dimension = 20, error = ErrNum 10, result = PyInt 20\<rparr>],
     warnings = [], calls = [10, 20, 40]\<rparr>)"
proof -
  let ?f = "\<lambda>n::int. if n = 40 then Inl (Raised ''singular matrix'') else Inr (PyInt n)"
  let ?r = "\<lambda>j::nat. PyInt (10 * 2 ^ j)"
  let ?e = "\<lambda>j::nat. ErrNum (of_int \<bar>10 * 2 ^ j - 10 * 2 ^ (j - 1)\<bar>)"
  have a: "(2::nat) < 10" by simp
  have b: "\<forall>j<2::nat. ?f (10 * 2 ^ j) = Inr (?r j)"
  proof (intro allI impI)
    fix j :: nat assume "j < 2"
    then have "j = 0 \<or> j = 1" by auto
    then show "?f (10 * 2 ^ j) = Inr (?r j)" by auto
  qed
  have c: "\<forall>j. 0 < j \<and> j < 2 \<and> ?r (j - 1) \<noteq> PyNone \<longrightarrow>
           error_of (?r j) (?r (j - 1)) = Inr (?e j) \<and> below (?e j) (1 / 10 ^ 12) = Inr False"
  proof (intro allI impI)
    fix j :: nat assume "0 < j \<and> j < 2 \<and> ?r (j - 1) \<noteq> PyNone"
    then have "j = 1" by auto
    then show "error_of (?r j) (?r (j - 1)) = Inr (?e j) \<and>
               below (?e j) (1 / 10 ^ 12) = Inr False"
      by (simp add: error_of_int)
  qed
  have d: "?f (10 * 2 ^ 2) = Inl (Raised ''singular matrix'')" by simp
  show ?thesis
    using exception_propagates [OF a b c d, of "init 1000"]
    by (simp add: init_def upt_rec)
qed

subsection \<open>The distance, by the type of the current result\<close>

lemma sum_list_map_nth:
  "(\<Sum>x\<leftarrow>xs. g x) = (\<Sum>i<length xs. g (xs ! i))" for g :: "'a \<Rightarrow> real"
proof -
  have "(\<Sum>x\<leftarrow>xs. g x) = (\<Sum>i<length (map g xs). (map g xs) ! i)"
    by (simp add: sum_list_sum_nth atLeast0LessThan)
  also have "\<dots> = (\<Sum>i<length xs. g (xs ! i))" by simp
  finally show ?thesis .
qed

lemma error_of_scalar_array:
  "numeric c = Some z \<Longrightarrow>
   error_of c (NdArray ys) = Inr (ErrArr (map (\<lambda>y. cmod (z - of_real y)) ys))"
  by (simp add: error_of.simps)

lemma error_of_float_array:
  "error_of (PyFloat x) (NdArray ys) = Inr (ErrArr (map (\<lambda>y. \<bar>x - y\<bar>) ys))"
proof -
  have "cmod (of_real x - of_real y) = \<bar>x - y\<bar>" for y
    by (metis norm_of_real of_real_diff)
  then show ?thesis by (simp add: error_of.simps)
qed

lemma error_of_scalar_unsupported:
  "numeric c = Some z \<Longrightarrow>
   error_of c PyNone = Inl TypeError \<and> error_of c (PyStr t) = Inl TypeError"
  by (simp add: error_of.simps)

lemma error_of_array_broadcast_right:
  "error_of (NdArray xs) (NdArray [v]) =
     Inr (ErrNum (sqrt (\<Sum>i<length xs. (xs ! i - v)\<^sup>2)))"
proof (cases "length xs = 1")
  case True
  then obtain u where "xs = [u]" by (cases xs) auto
  then show ?thesis by (simp add: error_of.simps elementwise_sub_def linalg_norm_def)
next
  case False
  have "(\<Sum>d\<leftarrow>map (\<lambda>x. x - v) xs. d\<^sup>2) = (\<Sum>i<length xs. (xs ! i - v)\<^sup>2)"
    using sum_list_map_nth [of "\<lambda>x. (x - v)\<^sup>2" xs] by (simp add: comp_def)
  then show ?thesis
    using False by (simp add: error_of.simps elementwise_sub_def linalg_norm_def)
qed

lemma error_of_array_broadcast_left:
  "error_of (NdArray [v]) (NdArray ys) =
     Inr (ErrNum (sqrt (\<Sum>i<length ys. (v - ys ! i)\<^sup>2)))"
proof (cases "length ys = 1")
  case True
  then obtain u where "ys = [u]" by (cases ys) auto
  then show ?thesis by (simp add: error_of.simps elementwise_sub_def linalg_norm_def)
next
  case False
  have "(\<Sum>d\<leftarrow>map (\<lambda>y. v - y) ys. d\<^sup>2) = (\<Sum>i<length ys. (v - ys ! i)\<^sup>2)"
    using sum_list_map_nth [of "\<lambda>y. (v - y)\<^sup>2" ys] by (simp add: comp_def)
  moreover have "length ys \<noteq> Suc 0" using False by simp
  ultimately show ?thesis
    using False by (auto simp: error_of.simps elementwise_sub_def linalg_norm_def)
qed

lemma error_of_array_shapes:
  "length xs \<noteq> length ys \<Longrightarrow> length xs \<noteq> 1 \<Longrightarrow> length ys \<noteq> 1 \<Longrightarrow>
   error_of (NdArray xs) (NdArray ys) = Inl ValueError"
  by (simp add: error_of.simps elementwise_sub_def)

lemma error_of_array_scalar:
  "numeric p = Some w \<Longrightarrow>
   error_of (NdArray xs) p =
     Inr (ErrNum (sqrt (\<Sum>i<length xs. (cmod (of_real (xs ! i) - w))\<^sup>2)))"
  using sum_list_map_nth [of "\<lambda>x. (cmod (of_real x - w))\<^sup>2" xs]
  by (cases p) (simp_all add: error_of.simps)

lemma error_of_array_float:
  "error_of (NdArray xs) (PyFloat y) = Inr (ErrNum (sqrt (\<Sum>i<length xs. (xs ! i - y)\<^sup>2)))"
proof -
  have "cmod (of_real u - of_real y) = \<bar>u - y\<bar>" for u
    by (metis norm_of_real of_real_diff)
  then show ?thesis
    using error_of_array_scalar [of "PyFloat y" "of_real y" xs] by simp
qed

lemma error_of_array_unsupported:
  "error_of (NdArray xs) PyNone = Inl TypeError \<and>
   error_of (NdArray xs) (PyStr t) = Inl TypeError"
  by (simp add: error_of.simps)

text \<open>
  C3, as the code has it, for every pair of a current and a previous result. The branch is
  chosen by the type of the current result alone, and what it yields depends on the
  previous result as well.
  \<^item> Current result a scalar: the absolute difference when the previous result is a scalar
    (the modulus of the difference in general, \<open>\<bar>a - b\<bar>\<close> for two integers and for two
    floats); the array of the element-wise absolute differences when the previous result
    is an array; \<^verbatim>\<open>TypeError\<close> when it is \<^verbatim>\<open>None\<close> or a string.
  \<^item> Current result an array: the Euclidean norm of the element-wise difference (the square
    root of the sum of the squared differences) when the previous result is an array of the
    same length, an array of length one or a scalar, either of them broadcast, and when the
    current array has length one and is broadcast; \<^verbatim>\<open>ValueError\<close> for two arrays of
    different lengths, neither of length one; \<^verbatim>\<open>TypeError\<close> when the previous result is
    \<^verbatim>\<open>None\<close> or a string.
  \<^item> Current result of any other type: \<^verbatim>\<open>float('inf')\<close>, whatever the previous result
    is, which is below no tolerance.
\<close>

theorem distance_by_type:
  "(numeric c = Some z \<longrightarrow>
      (numeric p = Some w \<longrightarrow> error_of c p = Inr (ErrNum (cmod (z - w)))) \<and>
      error_of c (NdArray ys) = Inr (ErrArr (map (\<lambda>y. cmod (z - of_real y)) ys)) \<and>
      error_of c PyNone = Inl TypeError \<and>
      error_of c (PyStr t) = Inl TypeError) \<and>
   error_of (PyInt a) (PyInt b) = Inr (ErrNum (of_int \<bar>a - b\<bar>)) \<and>
   error_of (PyFloat x) (PyFloat y) = Inr (ErrNum \<bar>x - y\<bar>) \<and>
   error_of (PyFloat x) (NdArray ys) = Inr (ErrArr (map (\<lambda>y. \<bar>x - y\<bar>) ys)) \<and>
   (length xs = length ys \<longrightarrow>
      error_of (NdArray xs) (NdArray ys) =
        Inr (ErrNum (sqrt (\<Sum>i<length xs. (xs ! i - ys ! i)\<^sup>2)))) \<and>
   error_of (NdArray xs) (NdArray [v]) =
     Inr (ErrNum (sqrt (\<Sum>i<length xs. (xs ! i - v)\<^sup>2))) \<and>
   error_of (NdArray [v]) (NdArray ys) =
     Inr (ErrNum (sqrt (\<Sum>i<length ys. (v - ys ! i)\<^sup>2))) \<and>
   (length us \<noteq> length vs \<and> length us \<noteq> 1 \<and> length vs \<noteq> 1 \<longrightarrow>
      error_of (NdArray us) (NdArray vs) = Inl ValueError) \<and>
   (numeric p = Some w \<longrightarrow>
      error_of (NdArray xs) p =
        Inr (ErrNum (sqrt (\<Sum>i<length xs. (cmod (of_real (xs ! i) - w))\<^sup>2)))) \<and>
   error_of (NdArray xs) (PyFloat y) =
     Inr (ErrNum (sqrt (\<Sum>i<length xs. (xs ! i - y)\<^sup>2))) \<and>
   error_of (NdArray xs) PyNone = Inl TypeError \<and>
   error_of (NdArray xs) (PyStr t) = Inl TypeError \<and>
   (numeric c' = None \<and> (\<forall>zs. c' \<noteq> NdArray zs) \<longrightarrow>
      error_of c' p' = Inr ErrInf \<and> below ErrInf tol = Inr False)"
  using error_of_numeric [of c z p w] error_of_arrays [of xs ys] error_of_other [of c' p']
    error_of_scalar_array [of c z ys] error_of_scalar_unsupported [of c z t]
    error_of_array_shapes [of us vs] error_of_array_scalar [of p w xs]
    error_of_array_unsupported [of xs t]
  by (simp add: error_of_int error_of_float error_of_float_array
      error_of_array_broadcast_right error_of_array_broadcast_left error_of_array_float)

theorem distance_by_type_witness:
  "error_of (PyComplex \<i>) (PyInt 0) = Inr (ErrNum 1) \<and>
   error_of (PyComplex \<i>) (NdArray [0, 0]) = Inr (ErrArr [1, 1]) \<and>
   error_of (PyComplex \<i>) PyNone = Inl TypeError \<and>
   error_of (PyComplex \<i>) (PyStr ''a'') = Inl TypeError \<and>
   error_of (PyInt 7) (PyInt 10) = Inr (ErrNum 3) \<and>
   error_of (PyFloat (1 / 4)) (PyFloat (1 / 2)) = Inr (ErrNum (1 / 4)) \<and>
   error_of (PyFloat (1 / 4)) (NdArray [0, 0]) = Inr (ErrArr [1 / 4, 1 / 4]) \<and>
   error_of (NdArray [2, 1]) (NdArray [0, 0]) = Inr (ErrNum (sqrt 5)) \<and>
   error_of (NdArray [2, 1]) (NdArray [1]) = Inr (ErrNum 1) \<and>
   error_of (NdArray [1]) (NdArray [0, 0]) = Inr (ErrNum (sqrt 2)) \<and>
   error_of (NdArray [0, 0, 0]) (NdArray [0, 0]) = Inl ValueError \<and>
   error_of (NdArray [2, 1]) (PyInt 0) = Inr (ErrNum (sqrt 5)) \<and>
   error_of (NdArray [2, 1]) (PyFloat (1 / 2)) = Inr (ErrNum (sqrt (5 / 2))) \<and>
   error_of (NdArray [2, 1]) PyNone = Inl TypeError \<and>
   error_of (NdArray [2, 1]) (PyStr ''a'') = Inl TypeError \<and>
   error_of (PyStr ''a'') (PyInt 1) = Inr ErrInf \<and>
   below ErrInf (10 ^ 6) = Inr False"
  using distance_by_type [of "PyComplex \<i>" "\<i>" "PyInt 0" 0 "[0, 0]" "''a''" 7 10
      "1 / 4" "1 / 2" "[2, 1]" 1 "[0, 0, 0]" "[0, 0]" "PyStr ''a''" "PyInt 1" "10 ^ 6"]
  by (simp add: lessThan_Suc numeral_2_eq_2 power2_eq_square)

text \<open>
  Pairs the statement of C3 does not hold for: a scalar after a string has no distance, the
  subtraction raises; so do two arrays of lengths 3 and 2; and for a scalar after an array
  of two elements the value logged as the error is an array, on which the tolerance test
  raises \<^verbatim>\<open>ValueError\<close>.
\<close>

theorem scalar_distance_counterexample:
  "error_of (PyInt 1) (PyStr ''a'') = Inl TypeError \<and>
   error_of (NdArray [0, 0, 0]) (NdArray [0, 0]) = Inl ValueError \<and>
   adaptive_convergence (\<lambda>n. Inr (if n = 10 then NdArray [0, 3] else PyInt 1)) (1 / 10 ^ 12)
       10 (init 1000) =
     (Inl ValueError,
      \<lparr>dimension_cutoff = 1000,
       convergence_history = [\<lparr>dimension = 20, error = ErrArr [1, 2], result = PyInt 1\<rparr>],
       warnings = [], calls = [10, 20]\<rparr>)"
  by (simp add: adaptive_convergence_def init_def error_of.simps elementwise_sub_def
      eval_nat_numeral)

subsection \<open>Results that cannot be subtracted\<close>

text \<open>
  C4, as the code has it: the type test is on the current result alone. When every result
  from the second call on is neither a scalar nor an array (strings after a number, say),
  every comparison gives \<^verbatim>\<open>float('inf')\<close> whatever the previous result is, nothing is
  raised, the tolerance test never succeeds, and the run ends on the non-convergence path:
  one warning, and the last result returned.
\<close>

theorem other_type_never_raises:
  assumes "0 < m"
    and "\<forall>j<m. f (10 * 2 ^ j) = Inr (r j)"
    and "\<forall>j. 0 < j \<and> j < m \<longrightarrow> numeric (r j) = None \<and> (\<forall>xs. r j \<noteq> NdArray xs)"
  shows "(\<exists>d. fst (adaptive_convergence f tol (int m) s) = Inr (r (m - 1), d)) \<and>
         warnings (snd (adaptive_convergence f tol (int m) s)) =
           warnings s @ [FailedToConverge (int m)] \<and>
         convergence_history (snd (adaptive_convergence f tol (int m) s)) =
           convergence_history s @
             map (\<lambda>j. \<lparr>dimension = 10 * 2 ^ j, error = ErrInf, result = r j\<rparr>)
               (filter (\<lambda>j. r (j - 1) \<noteq> PyNone) [1..<m])"
proof -
  have c: "\<forall>j. 0 < j \<and> j < m \<and> r (j - 1) \<noteq> PyNone \<longrightarrow>
           error_of (r j) (r (j - 1)) = Inr ((\<lambda>j. ErrInf) j) \<and>
           below ((\<lambda>j. ErrInf) j) tol = Inr False"
    using assms(3) by (simp add: error_of_other)
  show ?thesis
    unfolding run_exhausted_explicit [OF assms(1,2) c] by simp
qed

theorem other_type_never_raises_witness:
  "(\<exists>d. fst (adaptive_convergence (\<lambda>n. Inr (if n = 10 then PyInt 1 else PyStr ''a''))
              (1 / 10 ^ 12) 3 (init 1000)) = Inr (PyStr ''a'', d)) \<and>
   warnings (snd (adaptive_convergence (\<lambda>n. Inr (if n = 10 then PyInt 1 else PyStr ''a''))
              (1 / 10 ^ 12) 3 (init 1000))) = [FailedToConverge 3] \<and>
   convergence_history (snd (adaptive_convergence
              (\<lambda>n. Inr (if n = 10 then PyInt 1 else PyStr ''a'')) (1 / 10 ^ 12) 3 (init 1000))) =
     [\<lparr>dimension = 20, error = ErrInf, result = PyStr ''a''\<rparr>,
      \<lparr>dimension = 40, error = ErrInf, result = PyStr ''a''\<rparr>]"
proof -
  let ?f = "\<lambda>n::int. (Inr (if n = 10 then PyInt 1 else PyStr ''a'') :: exn + pyval)"
  let ?r = "\<lambda>j::nat. if j = 0 then PyInt 1 else PyStr ''a''"
  have a: "(0::nat) < 3" by simp
  have b: "\<forall>j<3::nat. ?f (10 * 2 ^ j) = Inr (?r j)"
  proof (intro allI impI)
    fix j :: nat assume "j < 3"
    then have "j = 0 \<or> j = 1 \<or> j = 2" by auto
    then show "?f (10 * 2 ^ j) = Inr (?r j)" by auto
  qed
  have c: "\<forall>j. 0 < j \<and> j < 3 \<longrightarrow> numeric (?r j) = None \<and> (\<forall>xs. ?r j \<noteq> NdArray xs)"
    by simp
  show ?thesis
    using other_type_never_raises [OF a b c, of "1 / 10 ^ 12" "init 1000"]
    by (simp add: init_def upt_rec)
qed

text \<open>
  The two examples of the statement of C4. A string on the first call and a number on the
  second: the number is a scalar, so the subtraction is attempted and raises
  \<^verbatim>\<open>TypeError\<close>. Arrays of lengths 10 and 20: the subtraction raises \<^verbatim>\<open>ValueError\<close>.
\<close>

theorem incomparable_raises_counterexample:
  "fst (adaptive_convergence (\<lambda>n. Inr (if n = 10 then PyStr ''a'' else PyInt 1))
          (1 / 10 ^ 12) 10 (init 1000)) = Inl TypeError \<and>
   fst (adaptive_convergence (\<lambda>n. Inr (NdArray (replicate (nat n) 0))) (1 / 10 ^ 12) 10
          (init 1000)) = Inl ValueError"
  by (simp add: adaptive_convergence_def init_def error_of.simps elementwise_sub_def
      eval_nat_numeral)

subsection \<open>The reciprocal\<close>

text \<open>
  C5, as the code has it: for \<^verbatim>\<open>compute(n) = 1/n\<close>, tolerance \<open>1/100\<close> and the default ten
  iterations, the run succeeds at size 160, the first size whose distance from the result
  before it, \<open>\<bar>1/160 - 1/80\<bar> = 1/160\<close>, is below the tolerance; the sizes 20, 40 and 80
  fail with the distances \<open>1/20\<close>, \<open>1/40\<close> and \<open>1/80\<close>.
\<close>

theorem reciprocal_converges_at_160:
  "adaptive_convergence (\<lambda>n. Inr (PyFloat (1 / of_int n))) (1 / 100) 10 (init 1000) =
     (Inr (PyFloat (1 / 160), 160),
      \<lparr>dimension_cutoff = 1000,
       convergence_history =
         [\<lparr>dimension = 20, error = ErrNum (1 / 20), result = PyFloat (1 / 20)\<rparr>,
          \<lparr>dimension = 40, error = ErrNum (1 / 40), result = PyFloat (1 / 40)\<rparr>,
          \<lparr>dimension = 80, error = ErrNum (1 / 80), result = PyFloat (1 / 80)\<rparr>,
          \<lparr>dimension = 160, error = ErrNum (1 / 160), result = PyFloat (1 / 160)\<rparr>],
       warnings = [], calls = [10, 20, 40, 80, 160]\<rparr>)"
  by (simp add: adaptive_convergence_def finish_def init_def error_of_float eval_nat_numeral)

text \<open>
  The distance at size 80 is \<open>\<bar>1/80 - 1/40\<bar> = 1/80 = 0.0125\<close>, not \<open>0.003125\<close>, and it is
  not below \<open>1/100\<close>: the run does not return at size 80.
\<close>

theorem reciprocal_size_80_counterexample:
  "error_of (PyFloat (1 / 80)) (PyFloat (1 / 40)) = Inr (ErrNum (1 / 80)) \<and>
   (1 / 80 :: real) \<noteq> 3125 / 1000000 \<and>
   below (ErrNum (1 / 80)) (1 / 100) = Inr False \<and>
   fst (adaptive_convergence (\<lambda>n. Inr (PyFloat (1 / of_int n))) (1 / 100) 10 (init 1000))
     \<noteq> Inr (PyFloat (1 / 80), 80)"
  by (simp add: adaptive_convergence_def finish_def init_def error_of_float eval_nat_numeral)

subsection \<open>Constant arrays\<close>

text \<open>
  C6, as the code has it: for two constant arrays of the same length \<open>m\<close>, filled with
  \<open>a\<close> and with \<open>b\<close> (for instance \<open>a = 1/n\<close> and \<open>b = 1/(n/2)\<close>), the distance is
  \<open>sqrt m * \<bar>a - b\<bar>\<close>.
\<close>

theorem constant_array_distance:
  "error_of (NdArray (replicate m a)) (NdArray (replicate m b)) =
     Inr (ErrNum (sqrt (real m) * \<bar>a - b\<bar>))"
  by (rule error_of_constant_arrays)

text \<open>
  With the length of the array equal to the size, the results at sizes 10 and 20 have
  different lengths, their difference raises \<^verbatim>\<open>ValueError\<close>, and so does the run.
\<close>

theorem constant_array_counterexample:
  "error_of (NdArray (replicate 20 (1 / 20))) (NdArray (replicate 10 (1 / 10))) =
     Inl ValueError \<and>
   fst (adaptive_convergence (\<lambda>n. Inr (NdArray (replicate (nat n) (1 / of_int n)))) (1 / 100) 10
          (init 1000)) = Inl ValueError"
  by (simp add: adaptive_convergence_def init_def error_of.simps elementwise_sub_def
      eval_nat_numeral)

subsection \<open>The length of the log\<close>

lemma later_size_not_10: "0 < j \<Longrightarrow> (10::int) * 2 ^ j \<noteq> 10"
proof -
  assume "0 < j"
  then have "(1::int) < 2 ^ j" by simp
  then show ?thesis by simp
qed

lemma filter_previous_all:
  assumes "\<forall>j<n. r j \<noteq> PyNone"
  shows "filter (\<lambda>j. r (j - 1) \<noteq> PyNone) [1..<n] = [1..<n]"
proof -
  have "\<forall>j\<in>set [1..<n]. r (j - 1) \<noteq> PyNone"
    using assms by auto
  then show ?thesis by simp
qed

text \<open>
  C7, as the code has it, on a new instance. Let \<open>K\<close> be the number of calls of the
  computation the run makes, \<open>min(max_iterations, convergence_iteration)\<close>: the first \<open>K\<close>
  calls return values other than \<^verbatim>\<open>None\<close>, no comparison raises, \<open>b j\<close> tells whether
  the tolerance test of the call at size \<open>10 * 2 ^ j\<close> succeeds, no test before that of call
  \<open>K\<close> succeeds, and when \<open>K\<close> is less than \<^verbatim>\<open>max_iterations\<close> the test of call \<open>K\<close>
  does. Then the log has \<open>K - 1\<close> records, and none of them is for size 10: the first
  iteration logs nothing.
\<close>

theorem log_length:
  assumes "0 < K" and "K \<le> m"
    and "\<forall>j<K. f (10 * 2 ^ j) = Inr (r j) \<and> r j \<noteq> PyNone"
    and "\<forall>j. 0 < j \<and> j < K \<longrightarrow>
           error_of (r j) (r (j - 1)) = Inr (e j) \<and> below (e j) tol = Inr (b j)"
    and "\<forall>j. 0 < j \<and> j < K - 1 \<longrightarrow> \<not> b j"
    and "K < m \<longrightarrow> 1 < K \<and> b (K - 1)"
  shows "length (convergence_history (snd (adaptive_convergence f tol (int m) (init cutoff))))
           = K - 1 \<and>
         10 \<notin> set (map dimension (convergence_history
                    (snd (adaptive_convergence f tol (int m) (init cutoff)))))"
proof (cases "1 < K \<and> b (K - 1)")
  case True
  define k where "k = K - 1"
  have k: "0 < k" "k < m" "K = Suc k" using True assms(2) by (auto simp: k_def)
  have rets: "\<forall>j<k. f (10 * 2 ^ j) = Inr (r j)" using assms(3) k by simp
  have nn: "\<forall>j<k. r j \<noteq> PyNone" using assms(3) k by simp
  have cont: "\<forall>j. 0 < j \<and> j < k \<and> r (j - 1) \<noteq> PyNone \<longrightarrow>
           error_of (r j) (r (j - 1)) = Inr (e j) \<and> below (e j) tol = Inr False"
    using assms(4,5) k by simp
  have at: "f (10 * 2 ^ k) = Inr (r k)" using assms(3) k by simp
  have prev: "r (k - 1) \<noteq> PyNone" using assms(3) k by simp
  have err: "error_of (r k) (r (k - 1)) = Inr (e k)" using assms(4) k by simp
  have pass: "below (e k) tol = Inr True" using assms(4) k True by simp
  have dims: "(10::int) * 2 ^ j \<noteq> 10" if "0 < j" for j :: nat
    using that by (rule later_size_not_10)
  show ?thesis
    unfolding run_success_explicit [OF k(1,2) rets cont at prev err pass]
      filter_previous_all [OF nn]
    using k dims by (auto simp: init_def)
next
  case False
  have Km: "K = m" using False assms(2,6) by auto
  have rets: "\<forall>j<m. f (10 * 2 ^ j) = Inr (r j)" using assms(3) Km by simp
  have nn: "\<forall>j<m. r j \<noteq> PyNone" using assms(3) Km by simp
  have nb: "\<not> b j" if "0 < j" "j < m" for j
  proof (cases "j < K - 1")
    case True
    then show ?thesis using assms(5) that by simp
  next
    case False
    then have "j = K - 1" using that Km by simp
    then show ?thesis using \<open>\<not> (1 < K \<and> b (K - 1))\<close> that by auto
  qed
  have cont: "\<forall>j. 0 < j \<and> j < m \<and> r (j - 1) \<noteq> PyNone \<longrightarrow>
           error_of (r j) (r (j - 1)) = Inr (e j) \<and> below (e j) tol = Inr False"
    using assms(4) nb Km by simp
  have m: "0 < m" using assms(1) Km by simp
  have dims: "(10::int) * 2 ^ j \<noteq> 10" if "0 < j" for j :: nat
    using that by (rule later_size_not_10)
  show ?thesis
    unfolding run_exhausted_explicit [OF m rets cont] filter_previous_all [OF nn]
    using Km dims by (auto simp: init_def)
qed

theorem log_length_witness:
  "length (convergence_history
     (snd (adaptive_convergence (\<lambda>n. Inr (PyFloat (1 / of_int n))) (1 / 100) 10 (init 1000)))) = 4 \<and>
   10 \<notin> set (map dimension (convergence_history
     (snd (adaptive_convergence (\<lambda>n. Inr (PyFloat (1 / of_int n))) (1 / 100) 10 (init 1000)))))"
proof -
  let ?f = "\<lambda>n::int. (Inr (PyFloat (1 / of_int n)) :: exn + pyval)"
  let ?r = "\<lambda>j::nat. PyFloat (1 / of_int (10 * 2 ^ j))"
  let ?d = "\<lambda>j::nat. \<bar>1 / of_int (10 * 2 ^ j) - 1 / of_int (10 * 2 ^ (j - 1)) :: real\<bar>"
  let ?e = "\<lambda>j::nat. ErrNum (?d j)"
  let ?b = "\<lambda>j::nat. ?d j < 1 / 100"
  have a: "(0::nat) < 5" and b: "(5::nat) \<le> 10" by simp_all
  have c: "\<forall>j<5::nat. ?f (10 * 2 ^ j) = Inr (?r j) \<and> ?r j \<noteq> PyNone" by simp
  have d: "\<forall>j. 0 < j \<and> j < (5::nat) \<longrightarrow>
           error_of (?r j) (?r (j - 1)) = Inr (?e j) \<and> below (?e j) (1 / 100) = Inr (?b j)"
    by (simp add: error_of_float)
  have e: "\<forall>j. 0 < j \<and> j < (5::nat) - 1 \<longrightarrow> \<not> ?b j"
  proof (intro allI impI)
    fix j :: nat assume "0 < j \<and> j < 5 - 1"
    then have "j = 1 \<or> j = 2 \<or> j = 3" by auto
    then show "\<not> ?b j" by auto
  qed
  have f: "(5::nat) < 10 \<longrightarrow> 1 < (5::nat) \<and> ?b (5 - 1)" by simp
  show ?thesis
    using log_length [OF a b c d e f, of 1000] by simp
qed

text \<open>
  A computation that returns \<^verbatim>\<open>None\<close>: the test \<^verbatim>\<open>previous_result is not None\<close> fails
  in every iteration, so three iterations that never converge leave the log empty, not
  with two records.
\<close>

theorem none_results_log_counterexample:
  "adaptive_convergence (\<lambda>n. Inr PyNone) (1 / 10 ^ 12) 3 (init 1000) =
     (Inr (PyNone, 80),
      \<lparr>dimension_cutoff = 1000, convergence_history = [], warnings = [FailedToConverge 3],
       calls = [10, 20, 40]\<rparr>)"
  by (simp add: adaptive_convergence_def finish_def init_def eval_nat_numeral)

end
